theory Spec2Isabelle
  imports Complex_Main
begin

section \<open>JavaScript values used by the passes\<close>

text \<open>
  The two classes \<open>NormalPass\<close> (src/passes/NormalPass.js) and \<open>DepthPass\<close> (the second
  source file) are embedded shallowly. A JavaScript Number is an IEEE 754 double: a finite
  value is a rational, next to the two infinities and NaN. The negative zero is identified
  with zero (no operation used by the passes tells them apart).
\<close>

datatype number = Fin rat | PosInf | NegInf | NaN

text \<open>
  A reference-typed JavaScript value: \<open>undefined\<close>, \<open>null\<close> or an object.
\<close>

datatype 'a js = Undefined | Null | Obj 'a

datatype error = TypeError | DrawFailure

subsection \<open>Rounding of a product to a double\<close>

text \<open>
  The product of two finite doubles is the exact product rounded to the nearest double,
  ties to the even significand (53 bits, exponents from -1022 to 1023, subnormals below);
  a rounded magnitude of \<open>2^1024\<close> or more is an infinity (which needs a magnitude of
  \<open>2^1023\<close> at least, so smaller ones skip the comparison).
\<close>

definition pow2 :: "int \<Rightarrow> rat" where
  "pow2 e = (if 0 \<le> e then 2 ^ nat e else 1 / 2 ^ nat (- e))"

function bit_length :: "int \<Rightarrow> int" where
  \<comment> \<open>the number of binary digits of a positive integer\<close>
  "bit_length n = (if n \<le> 0 then 0 else 1 + bit_length (n div 2))"
  by auto
termination
  by (relation "measure nat") auto

declare bit_length.simps [simp del]

definition ilog2 :: "rat \<Rightarrow> int" where
  \<comment> \<open>the exponent \<open>e\<close> with \<open>2^e \<le> q < 2^(e+1)\<close>, for \<open>q > 0\<close>\<close>
  "ilog2 q =
     (let d = bit_length (fst (quotient_of q)) - bit_length (snd (quotient_of q))
      in if pow2 d \<le> q then d else d - 1)"

definition round_half_even :: "rat \<Rightarrow> int" where
  "round_half_even m =
     (let f = \<lfloor>m\<rfloor>; r = m - of_int f
      in if r < 1 / 2 then f
         else if 1 / 2 < r then f + 1
         else if even f then f else f + 1)"

definition fround :: "rat \<Rightarrow> number" where
  "fround q =
     (if q = 0 then Fin 0
      else
        let a = \<bar>q\<bar>;
            e = max (ilog2 a) (- 1022);
            u = pow2 (e - 52);
            r = of_int (round_half_even (a / u)) * u
        in if e < 1023 then Fin (if 0 < q then r else - r)
           else if pow2 1024 \<le> r then (if 0 < q then PosInf else NegInf)
           else Fin (if 0 < q then r else - r))"

subsection \<open>The arithmetic of \<open>setSize\<close>\<close>

definition sign_of :: "number \<Rightarrow> int" where
  "sign_of x =
     (case x of
        Fin a \<Rightarrow> (if a = 0 then 0 else if 0 < a then 1 else - 1)
      | PosInf \<Rightarrow> 1
      | NegInf \<Rightarrow> - 1
      | NaN \<Rightarrow> 0)"

definition js_mul :: "number \<Rightarrow> number \<Rightarrow> number" where
  \<comment> \<open>the operator \<open>*\<close> on Numbers\<close>
  "js_mul x y =
     (if x = NaN \<or> y = NaN then NaN
      else case (x, y) of
        (Fin a, Fin b) \<Rightarrow> fround (a * b)
      | _ \<Rightarrow> (if sign_of x * sign_of y = 0 then NaN
              else if 0 < sign_of x * sign_of y then PosInf else NegInf))"

definition Math_floor :: "number \<Rightarrow> number" where
  "Math_floor x = (case x of Fin a \<Rightarrow> Fin (of_int \<lfloor>a\<rfloor>) | _ \<Rightarrow> x)"

definition Math_max :: "number \<Rightarrow> number \<Rightarrow> number" where
  "Math_max x y =
     (if x = NaN \<or> y = NaN then NaN
      else if x = PosInf \<or> y = PosInf then PosInf
      else case (x, y) of
        (Fin a, Fin b) \<Rightarrow> Fin (max a b)
      | (NegInf, _) \<Rightarrow> y
      | (_, _) \<Rightarrow> x)"


section \<open>Objects of the rendering library\<close>

text \<open>
  The classes imported from the rendering library are no code of this repository. Only
  what the passes read and write is kept of them: a colour is the hexadecimal literal it
  was made from, a texture has the fields the constructors set, and a field the caller
  never gave is \<open>None\<close> (left to the library).
\<close>

datatype texture_filter = NearestFilter | LinearFilter | LinearMipMapLinearFilter

datatype pixel_format = RGBFormat | RGBAFormat

datatype depth_packing = BasicDepthPacking | RGBADepthPacking

datatype color = Color nat

definition color_channels :: "color \<Rightarrow> nat \<times> nat \<times> nat" where
  \<comment> \<open>the 8-bit red, green and blue of a hexadecimal colour\<close>
  "color_channels c =
     (case c of Color hex \<Rightarrow> (hex div 65536 mod 256, hex div 256 mod 256, hex mod 256))"

datatype material =
    MeshNormalMaterial bool bool
      \<comment> \<open>morphTargets, skinning\<close>
  | MeshDepthMaterial depth_packing bool bool
      \<comment> \<open>depthPacking, morphTargets, skinning\<close>

type_synonym ref = nat
type_synonym scene = nat
type_synonym camera = nat
type_synonym renderer = nat

text \<open>
  Modelled from the spec: the class \<open>RenderPass\<close> (RenderPass.js is not among the
  sources), the scene render delegate of sections 2 and 3: a helper configured with the
  scene, the camera, one override material and the clear colour and alpha.
\<close>

record render_pass =
  scene :: "scene js"
  camera :: "camera js"
  overrideMaterial :: material
  clearColor :: color
  clearAlpha :: number

text \<open>
  Modelled from the spec: the constructor of \<open>RenderPass\<close> (RenderPass.js is not among
  the sources). It keeps the scene, the camera and the three options it is given.
\<close>

definition RenderPass :: "scene js \<Rightarrow> camera js \<Rightarrow> material \<Rightarrow> color \<Rightarrow> number \<Rightarrow> render_pass" where
  "RenderPass sc cam mat col alpha =
     \<lparr>scene = sc, camera = cam, overrideMaterial = mat, clearColor = col, clearAlpha = alpha\<rparr>"

text \<open>What a surface shows: nothing yet, or the picture a delegate drew.\<close>

datatype image = Empty | Drawn render_pass

record texture =
  tex_name :: string
  minFilter :: "texture_filter option"
  magFilter :: "texture_filter option"
  format :: "pixel_format option"
  generateMipmaps :: "bool option"

record render_target =
  width :: number
  height :: number
  texture :: texture
  contents :: image

definition WebGLRenderTarget ::
  "number \<Rightarrow> number \<Rightarrow> texture_filter option \<Rightarrow> texture_filter option \<Rightarrow> pixel_format option
     \<Rightarrow> render_target" where
  \<comment> \<open>\<open>new WebGLRenderTarget(width, height, {minFilter, magFilter, format})\<close>\<close>
  "WebGLRenderTarget w h minF magF fmt =
     \<lparr>width = w, height = h,
      texture = \<lparr>tex_name = [], minFilter = minF, magFilter = magF, format = fmt,
                 generateMipmaps = None\<rparr>,
      contents = Empty\<rparr>"

text \<open>
  Render targets are objects shared by reference: the caller who hands one to a pass keeps
  it. The store is the list of the render targets that exist, a reference is an index of
  it, and a new object takes the next index. The display surface is one more surface.
\<close>

record world =
  targets :: "render_target list"
  screen :: image

definition WebGLRenderTarget_setSize :: "ref \<Rightarrow> number \<Rightarrow> number \<Rightarrow> world \<Rightarrow> world" where
  \<comment> \<open>\<open>target.setSize(width, height)\<close>: the resizable surface of section 6; the model
      keeps the picture on it, and nothing below reads a picture after a resize\<close>
  "WebGLRenderTarget_setSize r w h \<sigma> =
     \<sigma>\<lparr>targets := (targets \<sigma>)[r := (targets \<sigma> ! r)\<lparr>width := w, height := h\<rparr>]\<rparr>"

text \<open>
  Modelled from the spec: the backend's requirement on a target that \<open>RenderPass.render\<close>
  draws into (RenderPass.js is not among the sources). Sections 3 and 4.1: a target has a
  nonzero extent, and a zero-sized one is invalid.
\<close>

definition nonzero_extent :: "render_target \<Rightarrow> bool" where
  "nonzero_extent t =
     (case (width t, height t) of (Fin w, Fin h) \<Rightarrow> 0 < w \<and> 0 < h | _ \<Rightarrow> False)"

text \<open>
  Modelled from the spec: one draw of \<open>RenderPass.render\<close> (RenderPass.js is not among
  the sources). Section 6: the configured scene, camera and override material are rendered
  into the target, cleared first to the configured colour and alpha, so the picture depends
  on the configuration only; a null or absent target means the display surface. Section
  4.1: on an invalid target the draw fails.
\<close>

definition draw_into :: "render_pass \<Rightarrow> ref js \<Rightarrow> world \<Rightarrow> world option" where
  "draw_into rp target \<sigma> =
     (case target of
        Obj r \<Rightarrow>
          if r < length (targets \<sigma>) \<and> nonzero_extent (targets \<sigma> ! r)
          then Some (\<sigma>\<lparr>targets := (targets \<sigma>)[r := (targets \<sigma> ! r)\<lparr>contents := Drawn rp\<rparr>]\<rparr>)
          else None
      | _ \<Rightarrow> Some (\<sigma>\<lparr>screen := Drawn rp\<rparr>))"

text \<open>
  Modelled from the spec: \<open>RenderPass.render(renderer, colorTarget, depthTarget)\<close>
  (RenderPass.js is not among the sources). Section 6: it renders into the given targets.
  Section 7: a failed draw is passed on to the caller, and a call that failed counts as not
  run.
\<close>

definition RenderPass_render ::
  "renderer \<Rightarrow> ref js \<Rightarrow> ref js \<Rightarrow> render_pass \<Rightarrow> world \<Rightarrow> error option \<times> world" where
  "RenderPass_render rend colorTarget depthTarget rp \<sigma> =
     (case draw_into rp colorTarget \<sigma> of
        None \<Rightarrow> (Some DrawFailure, \<sigma>)
      | Some \<sigma>1 \<Rightarrow>
          (case draw_into rp depthTarget \<sigma>1 of
             None \<Rightarrow> (Some DrawFailure, \<sigma>)
           | Some \<sigma>2 \<Rightarrow> (None, \<sigma>2)))"

section \<open>The passes\<close>

text \<open>
  Modelled from the spec: the fields of the base class \<open>Pass\<close> (Pass.js is not among the
  sources). Section 3: a pass has a name, fixed at construction, and the flag
  \<open>renderToScreen\<close> that the scheduler sets.
\<close>

record pass_base =
  name :: string
  renderToScreen :: bool

text \<open>
  Modelled from the spec: the constructor of the base class \<open>Pass\<close> (Pass.js is not among
  the sources), called as \<open>super(name)\<close>. Section 3: the name is fixed at construction,
  and writing to the display surface is a mode that the scheduler switches on, so it is off
  in a new pass.
\<close>

definition Pass :: "string \<Rightarrow> pass_base" where
  "Pass n = \<lparr>name = n, renderToScreen = False\<rparr>"

text \<open>
  Both classes add the same fields to those of the base class; \<open>needsSwap\<close> is assigned
  by their constructors.
\<close>

record vector2 =
  vec_x :: number
  vec_y :: number

record pass = pass_base +
  needsSwap :: bool
  renderPass :: render_pass
  renderTarget :: "ref js"
  resolution :: vector2
  resolutionScale :: number

record options =
  opt_resolutionScale :: "number option"
  opt_renderTarget :: "ref js"

definition default_options :: "options js \<Rightarrow> options js" where
  \<comment> \<open>the default parameter \<open>options = {}\<close>: it replaces \<open>undefined\<close> only\<close>
  "default_options opts =
     (case opts of
        Undefined \<Rightarrow> Obj \<lparr>opt_resolutionScale = None, opt_renderTarget = Undefined\<rparr>
      | _ \<Rightarrow> opts)"

definition NormalPass :: "scene js \<Rightarrow> camera js \<Rightarrow> options js \<Rightarrow> world \<Rightarrow> error + pass \<times> world" where
  "NormalPass sc cam opts \<sigma> =
     (case default_options opts of
        Obj opt \<Rightarrow>
          let base = Pass ''NormalPass'';
              rp = RenderPass sc cam (MeshNormalMaterial True True) (Color 0x7777ff) (Fin 1);
              t = WebGLRenderTarget (Fin 1) (Fin 1) (Some LinearFilter) (Some LinearFilter) (Some RGBFormat);
              created = t\<lparr>texture := (texture t)\<lparr>tex_name := ''NormalPass.Target'',
                                                   generateMipmaps := Some False\<rparr>\<rparr>;
              (rt, \<sigma>') = (case opt_renderTarget opt of
                            Undefined \<Rightarrow> (Obj (length (targets \<sigma>)),
                                          \<sigma>\<lparr>targets := targets \<sigma> @ [created]\<rparr>)
                          | given \<Rightarrow> (given, \<sigma>))
          in Inr (\<lparr>name = name base, renderToScreen = renderToScreen base,
                   needsSwap = False, renderPass = rp, renderTarget = rt,
                   resolution = \<lparr>vec_x = Fin 0, vec_y = Fin 0\<rparr>,
                   resolutionScale = (case opt_resolutionScale opt of
                                        Some s \<Rightarrow> s | None \<Rightarrow> Fin (1 / 2))\<rparr>, \<sigma>')
      | _ \<Rightarrow> Inl TypeError)"

definition DepthPass :: "scene js \<Rightarrow> camera js \<Rightarrow> options js \<Rightarrow> world \<Rightarrow> error + pass \<times> world" where
  "DepthPass sc cam opts \<sigma> =
     (case default_options opts of
        Obj opt \<Rightarrow>
          let base = Pass ''DepthPass'';
              rp = RenderPass sc cam (MeshDepthMaterial RGBADepthPacking True True)
                     (Color 0xffffff) (Fin 1);
              t = WebGLRenderTarget (Fin 1) (Fin 1) (Some LinearFilter) (Some LinearFilter) None;
              created = t\<lparr>texture := (texture t)\<lparr>tex_name := ''DepthPass.Target'',
                                                   generateMipmaps := Some False\<rparr>\<rparr>;
              (rt, \<sigma>') = (case opt_renderTarget opt of
                            Undefined \<Rightarrow> (Obj (length (targets \<sigma>)),
                                          \<sigma>\<lparr>targets := targets \<sigma> @ [created]\<rparr>)
                          | given \<Rightarrow> (given, \<sigma>))
          in Inr (\<lparr>name = name base, renderToScreen = renderToScreen base,
                   needsSwap = False, renderPass = rp, renderTarget = rt,
                   resolution = \<lparr>vec_x = Fin 0, vec_y = Fin 0\<rparr>,
                   resolutionScale = (case opt_resolutionScale opt of
                                        Some s \<Rightarrow> s | None \<Rightarrow> Fin (1 / 2))\<rparr>, \<sigma>')
      | _ \<Rightarrow> Inl TypeError)"

text \<open>
  The methods are the same text in both classes, so each is embedded once. A method takes
  the pass and the store and returns what it threw, if anything, with the pass and the
  store as the call left them: an exception does not undo the assignments made before it.
  A call of a method on a reference that is \<open>null\<close>, or that denotes no render target,
  throws a \<open>TypeError\<close>.
\<close>

definition getResolutionScale :: "pass \<Rightarrow> number" where
  "getResolutionScale this = resolutionScale this"

definition setSize :: "number \<Rightarrow> number \<Rightarrow> pass \<Rightarrow> world \<Rightarrow> error option \<times> pass \<times> world" where
  "setSize w h this \<sigma> =
     (let this' = this\<lparr>resolution := \<lparr>vec_x = w, vec_y = h\<rparr>\<rparr>
      in case renderTarget this' of
           Obj r \<Rightarrow>
             if r < length (targets \<sigma>)
             then (None, this',
                   WebGLRenderTarget_setSize r
                     (Math_max (Fin 1) (Math_floor (js_mul w (resolutionScale this'))))
                     (Math_max (Fin 1) (Math_floor (js_mul h (resolutionScale this')))) \<sigma>)
             else (Some TypeError, this', \<sigma>)
         | _ \<Rightarrow> (Some TypeError, this', \<sigma>))"

definition setResolutionScale :: "number \<Rightarrow> pass \<Rightarrow> world \<Rightarrow> error option \<times> pass \<times> world" where
  "setResolutionScale scale this \<sigma> =
     (let this' = this\<lparr>resolutionScale := scale\<rparr>
      in setSize (vec_x (resolution this')) (vec_y (resolution this')) this' \<sigma>)"

definition render ::
  "renderer \<Rightarrow> ref js \<Rightarrow> ref js \<Rightarrow> number option \<Rightarrow> bool option \<Rightarrow> pass \<Rightarrow> world
     \<Rightarrow> error option \<times> pass \<times> world" where
  "render rend inputBuffer outputBuffer delta stencilTest this \<sigma> =
     (let target = (if renderToScreen this then Null else renderTarget this);
          (e, \<sigma>') = RenderPass_render rend target target (renderPass this) \<sigma>
      in (e, this, \<sigma>'))"

text \<open>The render target of a pass as the store has it, and its dimensions.\<close>

definition target_of :: "pass \<Rightarrow> world \<Rightarrow> render_target option" where
  "target_of this \<sigma> =
     (case renderTarget this of
        Obj r \<Rightarrow> if r < length (targets \<sigma>) then Some (targets \<sigma> ! r) else None
      | _ \<Rightarrow> None)"

definition target_size :: "pass \<Rightarrow> world \<Rightarrow> (number \<times> number) option" where
  "target_size this \<sigma> = map_option (\<lambda>t. (width t, height t)) (target_of this \<sigma>)"

text \<open>
  A scheduler drives a pass by a sequence of calls, and sets the flag \<open>renderToScreen\<close>
  in between. It may catch what a call throws and go on, so the run goes through every
  call; a run that an exception ends is the run of a shorter sequence.
\<close>

datatype call =
    SetSize number number
  | SetResolutionScale number
  | Render renderer "ref js" "ref js" "number option" "bool option"
  | SetRenderToScreen bool

fun step :: "call \<Rightarrow> pass \<times> world \<Rightarrow> pass \<times> world" where
  "step (SetSize w h) (this, \<sigma>) = snd (setSize w h this \<sigma>)"
| "step (SetResolutionScale s) (this, \<sigma>) = snd (setResolutionScale s this \<sigma>)"
| "step (Render rend ib ob d st) (this, \<sigma>) = snd (render rend ib ob d st this \<sigma>)"
| "step (SetRenderToScreen b) (this, \<sigma>) = (this\<lparr>renderToScreen := b\<rparr>, \<sigma>)"

fun run :: "call list \<Rightarrow> pass \<times> world \<Rightarrow> pass \<times> world" where
  "run [] s = s"
| "run (c # cs) s = run cs (step c s)"


section \<open>Scenarios\<close>

text \<open>
  Two stores for the scenarios below: one with no render target yet, and one where the
  caller owns a 640 by 480 target with a configuration of its own.
\<close>

definition empty_world :: world where
  "empty_world = \<lparr>targets = [], screen = Empty\<rparr>"

definition caller_target :: render_target where
  "caller_target =
     \<lparr>width = Fin 640, height = Fin 480,
      texture = \<lparr>tex_name = ''Caller.Target'', minFilter = Some NearestFilter,
                 magFilter = Some NearestFilter, format = Some RGBAFormat,
                 generateMipmaps = Some True\<rparr>,
      contents = Empty\<rparr>"

definition caller_world :: world where
  "caller_world = \<lparr>targets = [caller_target], screen = Empty\<rparr>"

text \<open>The double nearest to one third, a scale whose products are rounded.\<close>

definition one_third :: rat where
  "one_third = 6004799503160661 / 18014398509481984"

section \<open>Arithmetic facts\<close>

lemma fround_zero: "fround 0 = Fin 0"
  by (simp add: fround_def)

lemma js_mul_zero_left: "js_mul (Fin 0) (Fin s) = Fin 0"
  by (simp add: js_mul_def fround_def)

lemma js_mul_zero_infinite: "js_mul (Fin 0) PosInf = NaN"
  by (simp add: js_mul_def sign_of_def)

lemma mul_1_half: "js_mul (Fin 1) (Fin (1 / 2)) = Fin (1 / 2)"
  by code_simp

lemma mul_800_half: "js_mul (Fin 800) (Fin (1 / 2)) = Fin 400"
  by code_simp

lemma mul_600_half: "js_mul (Fin 600) (Fin (1 / 2)) = Fin 300"
  by code_simp

lemma mul_800_quarter: "js_mul (Fin 800) (Fin (1 / 4)) = Fin 200"
  by code_simp

lemma mul_600_quarter: "js_mul (Fin 600) (Fin (1 / 4)) = Fin 150"
  by code_simp

lemma fround_1_half: "fround (1 / 2) = Fin (1 / 2)"
  by code_simp

lemma fround_801_half: "fround (801 / 2) = Fin (801 / 2)"
  by code_simp

lemma fround_601_half: "fround (601 / 2) = Fin (601 / 2)"
  by code_simp

lemma floor_halves: "\<lfloor>801 / 2 :: rat\<rfloor> = 400" "\<lfloor>601 / 2 :: rat\<rfloor> = 300"
  by code_simp+

lemma floor_5_third: "\<lfloor>7505999378950826 / 4503599627370496 :: rat\<rfloor> = 1"
  by code_simp

lemma fround_6_third: "fround (6 * one_third) = Fin 2"
  by code_simp

lemma fround_5_third: "fround (5 * one_third) = Fin (7505999378950826 / 4503599627370496)"
  by code_simp

subsection \<open>Rounding leaves a double as it is\<close>

lemma pow2_powi: "pow2 e = 2 powi e"
  by (simp add: pow2_def power_int_def power_one_over inverse_eq_divide)

lemma pow2_add: "pow2 (a + b) = pow2 a * pow2 b"
  by (simp add: pow2_powi power_int_add)

lemma pow2_diff: "pow2 (a - b) = pow2 a / pow2 b"
  by (simp add: pow2_powi power_int_diff)

lemma pow2_pos: "0 < pow2 e"
  by (simp add: pow2_powi)

lemma pow2_mono: "a \<le> b \<Longrightarrow> pow2 a \<le> pow2 b"
  by (simp add: pow2_powi power_int_increasing)

lemma pow2_less_imp: "pow2 a < pow2 b \<Longrightarrow> a < b"
  using pow2_mono [of b a] by (cases "a < b") simp_all

lemma of_int_pow2: "0 \<le> m \<Longrightarrow> (of_int (2 ^ nat m) :: rat) = pow2 m"
  by (simp add: pow2_def)

lemma bit_length_bounds:
  "0 < n \<Longrightarrow>
     0 < bit_length n \<and> 2 ^ nat (bit_length n - 1) \<le> n \<and> n < 2 ^ nat (bit_length n)"
proof (induction n rule: bit_length.induct)
  case (1 n)
  show ?case
  proof (cases "n div 2 = 0")
    case True
    with "1.prems" have "n = 1" by presburger
    then show ?thesis
      by (simp add: bit_length.simps [of 1] bit_length.simps [of 0])
  next
    case False
    with "1.prems" have pos: "0 < n div 2" by presburger
    from "1.prems" have "\<not> n \<le> 0" by simp
    from "1.IH" [OF this pos]
    have k: "0 < bit_length (n div 2)"
      and lo: "2 ^ nat (bit_length (n div 2) - 1) \<le> n div 2"
      and hi: "n div 2 < 2 ^ nat (bit_length (n div 2))"
      by simp_all
    have bl: "bit_length n = 1 + bit_length (n div 2)"
      using "1.prems" by (simp add: bit_length.simps [of n])
    have e1: "nat (bit_length n - 1) = Suc (nat (bit_length (n div 2) - 1))"
      using k bl by simp
    have e2: "nat (bit_length n) = Suc (nat (bit_length (n div 2)))"
      using k bl by simp
    have "2 * (n div 2) \<le> n" "n < 2 * (n div 2) + 2"
      by presburger+
    moreover have "(2::int) ^ nat (bit_length n - 1) = 2 * 2 ^ nat (bit_length (n div 2) - 1)"
      by (simp add: e1)
    moreover have "(2::int) ^ nat (bit_length n) = 2 * 2 ^ nat (bit_length (n div 2))"
      by (simp add: e2)
    ultimately show ?thesis
      using lo hi k bl by linarith
  qed
qed

lemma bit_length_pow2:
  assumes "0 < n"
  shows "pow2 (bit_length n - 1) \<le> of_int n" and "of_int n < pow2 (bit_length n)"
proof -
  from bit_length_bounds [OF assms]
  have k: "0 < bit_length n" and lo: "2 ^ nat (bit_length n - 1) \<le> n"
    and hi: "n < 2 ^ nat (bit_length n)" by simp_all
  have "(of_int (2 ^ nat (bit_length n - 1)) :: rat) \<le> of_int n"
    using lo by (simp only: of_int_le_iff)
  then show "pow2 (bit_length n - 1) \<le> of_int n"
    using k by (simp add: of_int_pow2 [symmetric])
  have "(of_int n :: rat) < of_int (2 ^ nat (bit_length n))"
    using hi by (simp only: of_int_less_iff)
  then show "of_int n < pow2 (bit_length n)"
    using k by (simp add: of_int_pow2 [symmetric])
qed

lemma ilog2_lower:
  assumes "0 < q"
  shows "pow2 (ilog2 q) \<le> q"
proof -
  obtain a b where ab: "quotient_of q = (a, b)"
    by (cases "quotient_of q")
  have b: "0 < b" using ab by (rule quotient_of_denom_pos)
  have q: "q = of_int a / of_int b" using ab by (rule quotient_of_div)
  have a: "0 < a"
    using assms b unfolding q by (simp add: zero_less_divide_iff)
  let ?d = "bit_length a - bit_length b"
  have "pow2 (?d - 1) = pow2 (bit_length a - 1) / pow2 (bit_length b)"
    using pow2_diff [of "bit_length a - 1" "bit_length b"] by (simp add: algebra_simps)
  also have "\<dots> \<le> of_int a / of_int b"
    using bit_length_pow2 [OF a] bit_length_pow2 [OF b] b pow2_pos [of "bit_length a - 1"]
    by (intro frac_le) simp_all
  finally have "pow2 (?d - 1) \<le> q" by (simp add: q)
  then show ?thesis
    by (simp add: ilog2_def ab Let_def)
qed

lemma round_half_even_int: "round_half_even (of_int m) = m"
  by (simp add: round_half_even_def)

text \<open>
  A positive value with at most 53 significant bits and an exponent in the range of the
  doubles is a double, and rounding returns it.
\<close>

lemma fround_exact:
  assumes "0 < n" and "n < 2 ^ 53" and "- 1074 \<le> k" and "k \<le> 970"
  shows "fround (of_int n * pow2 k) = Fin (of_int n * pow2 k)"
proof -
  let ?q = "of_int n * pow2 k :: rat"
  have qpos: "0 < ?q"
    using assms(1) pow2_pos [of k] by simp
  have "(of_int n :: rat) < of_int (2 ^ 53)"
    using assms(2) by (simp only: of_int_less_iff)
  then have "(of_int n :: rat) < pow2 53"
    by (simp add: pow2_def)
  then have "?q < pow2 53 * pow2 k"
    using pow2_pos [of k] by simp
  then have "?q < pow2 (53 + k)"
    by (simp add: pow2_add)
  with ilog2_lower [OF qpos] have "pow2 (ilog2 ?q) < pow2 (53 + k)"
    by simp
  then have il: "ilog2 ?q < 53 + k"
    by (rule pow2_less_imp)
  define e where "e = max (ilog2 ?q) (- 1022)"
  have e1: "e - 52 \<le> k" and e2: "e < 1023"
    using il assms(3,4) by (simp_all add: e_def)
  have "pow2 k = pow2 (k - (e - 52)) * pow2 (e - 52)"
    using pow2_add [of "k - (e - 52)" "e - 52"] by simp
  also have "pow2 (k - (e - 52)) = of_int (2 ^ nat (k - (e - 52)))"
    using e1 by (simp add: pow2_def)
  finally have pk: "pow2 k = of_int (2 ^ nat (k - (e - 52))) * pow2 (e - 52)" .
  have u: "?q / pow2 (e - 52) = of_int (n * 2 ^ nat (k - (e - 52)))"
    using pow2_pos [of "e - 52"] by (subst pk) simp
  have r: "of_int (round_half_even (?q / pow2 (e - 52))) * pow2 (e - 52) = ?q"
    unfolding u round_half_even_int using pk by simp
  have "\<bar>?q\<bar> = ?q" using qpos by simp
  then show ?thesis
    using qpos e2 r by (simp add: fround_def Let_def e_def)
qed

lemma size_of_zero: "Math_max (Fin 1) (Math_floor (js_mul (Fin 0) (Fin s))) = Fin 1"
  by (simp add: js_mul_zero_left Math_floor_def Math_max_def)

lemma mod_256_le: "(n::nat) mod 256 \<le> 255"
proof -
  have "n mod 256 < Suc 255" by simp
  then show ?thesis by (simp only: less_Suc_eq_le)
qed

lemma color_channels_le:
  "case color_channels c of (r, g, b) \<Rightarrow> r \<le> 255 \<and> g \<le> 255 \<and> b \<le> 255"
  by (cases c) (simp add: color_channels_def mod_256_le)

lemma color_channels_white: "color_channels (Color 0xffffff) = (255, 255, 255)"
  by (simp add: color_channels_def)

section \<open>Facts about the constructors and the methods\<close>

lemma ctor_fresh_fields:
  assumes "ctor = NormalPass \<or> ctor = DepthPass"
    and "ctor sc cam opts \<sigma> = Inr (this, \<sigma>')"
  shows "needsSwap this = False" and "renderToScreen this = False"
    and "resolution this = \<lparr>vec_x = Fin 0, vec_y = Fin 0\<rparr>"
  using assms
  by (auto simp: NormalPass_def DepthPass_def Pass_def Let_def split: js.splits)

lemma ctor_scale:
  assumes "ctor = NormalPass \<or> ctor = DepthPass"
    and "ctor sc cam opts \<sigma> = Inr (this, \<sigma>')"
    and "default_options opts = Obj opt"
  shows "resolutionScale this =
           (case opt_resolutionScale opt of Some s \<Rightarrow> s | None \<Rightarrow> Fin (1 / 2))"
  using assms
  by (auto simp: NormalPass_def DepthPass_def Pass_def Let_def split: js.splits)

lemma ctor_succeeds:
  assumes "ctor = NormalPass \<or> ctor = DepthPass" and "opts \<noteq> Null"
  shows "\<exists>this \<sigma>'. ctor sc cam opts \<sigma> = Inr (this, \<sigma>')"
  using assms
  by (auto simp: NormalPass_def DepthPass_def default_options_def Let_def
           split: js.splits prod.splits)

lemma ctor_null_options:
  "NormalPass sc cam Null \<sigma> = Inl TypeError" "DepthPass sc cam Null \<sigma> = Inl TypeError"
  by (simp_all add: NormalPass_def DepthPass_def default_options_def)

lemma ctor_given_target:
  assumes "ctor = NormalPass \<or> ctor = DepthPass"
    and "ctor sc cam opts \<sigma> = Inr (this, \<sigma>')"
    and "default_options opts = Obj opt"
    and "opt_renderTarget opt \<noteq> Undefined"
  shows "\<sigma>' = \<sigma>" and "renderTarget this = opt_renderTarget opt"
  using assms
  by (auto simp: NormalPass_def DepthPass_def Pass_def Let_def split: js.splits)

lemma ctor_created_target:
  assumes "ctor = NormalPass \<or> ctor = DepthPass"
    and "ctor sc cam opts \<sigma> = Inr (this, \<sigma>')"
    and "default_options opts = Obj opt"
    and "opt_renderTarget opt = Undefined"
  shows "renderTarget this = Obj (length (targets \<sigma>))"
    and "\<sigma>' = \<sigma>\<lparr>targets := targets \<sigma> @ [targets \<sigma>' ! length (targets \<sigma>)]\<rparr>"
    and "target_of this \<sigma>' = Some (targets \<sigma>' ! length (targets \<sigma>))"
    and "width (targets \<sigma>' ! length (targets \<sigma>)) = Fin 1"
    and "height (targets \<sigma>' ! length (targets \<sigma>)) = Fin 1"
    and "texture (targets \<sigma>' ! length (targets \<sigma>)) =
           \<lparr>tex_name = name this @ ''.Target'', minFilter = Some LinearFilter,
            magFilter = Some LinearFilter,
            format = (if name this = ''NormalPass'' then Some RGBFormat else None),
            generateMipmaps = Some False\<rparr>"
  using assms
  by (auto simp: NormalPass_def DepthPass_def Pass_def WebGLRenderTarget_def target_of_def
        Let_def split: js.splits)

lemma setSize_on_target:
  assumes "target_of this \<sigma> = Some t"
  shows "fst (setSize w h this \<sigma>) = None"
    and "fst (snd (setSize w h this \<sigma>)) = this\<lparr>resolution := \<lparr>vec_x = w, vec_y = h\<rparr>\<rparr>"
    and "target_of (fst (snd (setSize w h this \<sigma>))) (snd (snd (setSize w h this \<sigma>))) =
           Some (t\<lparr>width := Math_max (Fin 1) (Math_floor (js_mul w (resolutionScale this))),
                   height := Math_max (Fin 1) (Math_floor (js_mul h (resolutionScale this)))\<rparr>)"
  using assms
  by (auto simp: target_of_def setSize_def WebGLRenderTarget_setSize_def Let_def
           split: js.splits if_splits)

lemma setResolutionScale_on_target:
  assumes "target_of this \<sigma> = Some t"
  shows "fst (setResolutionScale s this \<sigma>) = None"
    and "fst (snd (setResolutionScale s this \<sigma>)) = this\<lparr>resolutionScale := s\<rparr>"
    and "target_of (fst (snd (setResolutionScale s this \<sigma>)))
           (snd (snd (setResolutionScale s this \<sigma>))) =
           Some (t\<lparr>width := Math_max (Fin 1) (Math_floor (js_mul (vec_x (resolution this)) s)),
                   height := Math_max (Fin 1) (Math_floor (js_mul (vec_y (resolution this)) s))\<rparr>)"
  using assms
  by (auto simp: target_of_def setSize_def setResolutionScale_def WebGLRenderTarget_setSize_def
        Let_def split: js.splits if_splits)

lemma step_needsSwap: "needsSwap (fst (step c s)) = needsSwap (fst s)"
  by (cases c; cases s)
     (auto simp: setSize_def setResolutionScale_def render_def Let_def
           split: js.splits prod.splits)

lemma run_needsSwap: "needsSwap (fst (run cs s)) = needsSwap (fst s)"
  by (induction cs arbitrary: s) (simp_all add: step_needsSwap)


section \<open>The claims\<close>

text \<open>
  C1. For every positive width, height and scale \<open>s\<close>, \<open>setSize(width, height)\<close> on a
  pass whose stored scale is \<open>s\<close> and whose render target exists throws nothing and leaves
  the render target with the dimensions \<open>(max(1, floor(width*s)), max(1, floor(height*s)))\<close>.
  The maximum and the floor are those of HOL; the product is the double that the language
  computes, the exact product rounded, and a product beyond the doubles stays infinite. With
  \<open>setSize(1, 1)\<close> and the scale 0.5 the floor is 0 and the target is 1 by 1.
\<close>

theorem setSize_target_dimensions:
  assumes "target_of this \<sigma> = Some t" and "resolutionScale this = Fin s"
    and "0 < w" and "0 < h" and "0 < s"
  shows "case setSize (Fin w) (Fin h) this \<sigma> of
           (e, this', \<sigma>') \<Rightarrow>
             e = None \<and>
             target_size this' \<sigma>' =
               Some ((case fround (w * s) of
                        Fin p \<Rightarrow> Fin (max 1 (of_int \<lfloor>p\<rfloor>)) | _ \<Rightarrow> PosInf),
                     (case fround (h * s) of
                        Fin p \<Rightarrow> Fin (max 1 (of_int \<lfloor>p\<rfloor>)) | _ \<Rightarrow> PosInf))"
proof -
  have "0 < w * s" and "0 < h * s"
    using assms(3,4,5) by simp_all
  then have pw: "fround (w * s) \<noteq> NaN \<and> fround (w * s) \<noteq> NegInf"
    and ph: "fround (h * s) \<noteq> NaN \<and> fround (h * s) \<noteq> NegInf"
    by (simp_all add: fround_def Let_def)
  obtain r where r: "renderTarget this = Obj r" "r < length (targets \<sigma>)"
    using assms(1) by (auto simp: target_of_def split: js.splits if_splits)
  show ?thesis
    using r assms(2) pw ph
    by (cases "fround (w * s)"; cases "fround (h * s)")
       (simp_all add: setSize_def WebGLRenderTarget_setSize_def target_of_def target_size_def
          js_mul_def Math_floor_def Math_max_def Let_def)
qed

theorem setSize_target_dimensions_witness:
  "(case DepthPass (Obj 10) (Obj 20) Undefined empty_world of
      Inl err \<Rightarrow> False
    | Inr (this, \<sigma>) \<Rightarrow>
        resolutionScale this = Fin (1 / 2) \<and>
        (case setSize (Fin 1) (Fin 1) this \<sigma> of
           (e, this', \<sigma>') \<Rightarrow> e = None \<and> target_size this' \<sigma>' = Some (Fin 1, Fin 1)) \<and>
        (case setSize (Fin 801) (Fin 601) this \<sigma> of
           (e, this', \<sigma>') \<Rightarrow> e = None \<and> target_size this' \<sigma>' = Some (Fin 400, Fin 300)))
   \<and> (case NormalPass (Obj 10) (Obj 20)
              (Obj \<lparr>opt_resolutionScale = Some (Fin one_third), opt_renderTarget = Undefined\<rparr>)
              empty_world of
        Inl err \<Rightarrow> False
      | Inr (this, \<sigma>) \<Rightarrow>
          (case setSize (Fin 6) (Fin 5) this \<sigma> of
             (e, this', \<sigma>') \<Rightarrow> e = None \<and> target_size this' \<sigma>' = Some (Fin 2, Fin 1)))"
proof -
  obtain this \<sigma> where c: "DepthPass (Obj 10) (Obj 20) Undefined empty_world = Inr (this, \<sigma>)"
    using ctor_succeeds [of DepthPass Undefined] by blast
  have d: "default_options Undefined =
             Obj \<lparr>opt_resolutionScale = None, opt_renderTarget = Undefined\<rparr>"
    by (simp add: default_options_def)
  have s: "resolutionScale this = Fin (1 / 2)"
    using ctor_scale [where ctor = DepthPass, OF _ c d] by simp
  have t: "target_of this \<sigma> = Some (targets \<sigma> ! length (targets empty_world))"
    using ctor_created_target(3) [where ctor = DepthPass, OF _ c d] by simp
  have boundary:
    "case setSize (Fin 1) (Fin 1) this \<sigma> of
       (e, this', \<sigma>') \<Rightarrow> e = None \<and> target_size this' \<sigma>' = Some (Fin 1, Fin 1)"
    using setSize_target_dimensions [OF t s, of 1 1]
    by (simp add: fround_1_half)
  have halves:
    "case setSize (Fin 801) (Fin 601) this \<sigma> of
       (e, this', \<sigma>') \<Rightarrow> e = None \<and> target_size this' \<sigma>' = Some (Fin 400, Fin 300)"
    using setSize_target_dimensions [OF t s, of 801 601]
    by (simp add: fround_801_half fround_601_half floor_halves)
  obtain that \<tau> where c': 
    "NormalPass (Obj 10) (Obj 20)
       (Obj \<lparr>opt_resolutionScale = Some (Fin one_third), opt_renderTarget = Undefined\<rparr>)
       empty_world = Inr (that, \<tau>)"
    using ctor_succeeds
      [of NormalPass
          "Obj \<lparr>opt_resolutionScale = Some (Fin one_third), opt_renderTarget = Undefined\<rparr>"]
    by blast
  have d': "default_options
              (Obj \<lparr>opt_resolutionScale = Some (Fin one_third), opt_renderTarget = Undefined\<rparr>) =
            Obj \<lparr>opt_resolutionScale = Some (Fin one_third), opt_renderTarget = Undefined\<rparr>"
    by (simp add: default_options_def)
  have s': "resolutionScale that = Fin one_third"
    using ctor_scale [where ctor = NormalPass, OF _ c' d'] by simp
  have t': "target_of that \<tau> = Some (targets \<tau> ! length (targets empty_world))"
    using ctor_created_target(3) [where ctor = NormalPass, OF _ c' d'] by simp
  have third_pos: "0 < one_third"
    by (simp add: one_third_def)
  have thirds:
    "case setSize (Fin 6) (Fin 5) that \<tau> of
       (e, this', \<sigma>') \<Rightarrow> e = None \<and> target_size this' \<sigma>' = Some (Fin 2, Fin 1)"
    using setSize_target_dimensions [OF t' s' _ _ third_pos, of 6 5]
    by (simp add: fround_6_third fround_5_third floor_5_third)
  show ?thesis
    using s boundary halves thirds by (simp add: c c')
qed

text \<open>
  Next to C1: the floor is taken of the product as the language rounds it. With the width 6
  and the scale \<open>one_third\<close> the product is the double 2, while the exact product is
  below 2.
\<close>

lemma rounded_product_example:
  "Math_max (Fin 1) (Math_floor (js_mul (Fin 6) (Fin one_third))) = Fin 2"
  "\<lfloor>6 * one_third\<rfloor> = 1"
  by code_simp+

text \<open>
  Where the exact products are doubles themselves (at most 53 significant bits, as whole
  sizes below \<open>2^53\<close> times the scales 0.5, 0.25 and 1 are), the dimensions are those
  of exact arithmetic.
\<close>

lemma setSize_exact_products:
  assumes "target_of this \<sigma> = Some t" and "resolutionScale this = Fin s"
    and "w * s = of_int n * pow2 k" and "0 < n" and "n < 2 ^ 53"
    and "- 1074 \<le> k" and "k \<le> 970"
    and "h * s = of_int m * pow2 j" and "0 < m" and "m < 2 ^ 53"
    and "- 1074 \<le> j" and "j \<le> 970"
  shows "target_size (fst (snd (setSize (Fin w) (Fin h) this \<sigma>)))
           (snd (snd (setSize (Fin w) (Fin h) this \<sigma>))) =
         Some (Fin (max 1 (of_int \<lfloor>w * s\<rfloor>)), Fin (max 1 (of_int \<lfloor>h * s\<rfloor>)))"
proof -
  have "fround (w * s) = Fin (w * s)"
    unfolding assms(3) using assms(4-7) by (rule fround_exact)
  moreover have "fround (h * s) = Fin (h * s)"
    unfolding assms(8) using assms(9-12) by (rule fround_exact)
  ultimately show ?thesis
    using setSize_on_target(3) [OF assms(1), of "Fin w" "Fin h"] assms(2)
    by (simp add: target_size_def js_mul_def Math_floor_def Math_max_def)
qed

text \<open>
  C2. \<open>setSize(w, h)\<close> on a pass with any scale, then \<open>setResolutionScale(s2)\<close>, leaves
  the render target with the dimensions that a pass constructed with the scale \<open>s2\<close> has
  after \<open>setSize(w, h)\<close> alone: the size is derived again from the remembered resolution,
  and neither call throws. The render targets of both passes exist.
\<close>

theorem setResolutionScale_rederives_size:
  assumes "target_of p1 \<sigma>1 = Some t1"
    and "ctor = NormalPass \<or> ctor = DepthPass"
    and "ctor sc cam (Obj \<lparr>opt_resolutionScale = Some s2, opt_renderTarget = rt\<rparr>) \<sigma>2
           = Inr (p2, \<sigma>2')"
    and "target_of p2 \<sigma>2' = Some t2"
  shows "(case setSize w h p1 \<sigma>1 of
            (e, p, \<sigma>) \<Rightarrow>
              (case setResolutionScale s2 p \<sigma> of
                 (e', p', \<sigma>') \<Rightarrow>
                   e = None \<and> e' = None \<and>
                   target_size p' \<sigma>' =
                     (case setSize w h p2 \<sigma>2' of (e2, q, \<tau>) \<Rightarrow> target_size q \<tau>)))
         \<and> (case setSize w h p2 \<sigma>2' of
              (e2, q, \<tau>) \<Rightarrow>
                e2 = None \<and>
                target_size q \<tau> =
                  Some (Math_max (Fin 1) (Math_floor (js_mul w s2)),
                        Math_max (Fin 1) (Math_floor (js_mul h s2))))"
proof -
  have "default_options (Obj \<lparr>opt_resolutionScale = Some s2, opt_renderTarget = rt\<rparr>)
          = Obj \<lparr>opt_resolutionScale = Some s2, opt_renderTarget = rt\<rparr>"
    by (simp add: default_options_def)
  from ctor_scale [OF assms(2,3) this] have s2: "resolutionScale p2 = s2"
    by simp
  have fresh: "fst (setSize w h p2 \<sigma>2') = None"
    "target_size (fst (snd (setSize w h p2 \<sigma>2'))) (snd (snd (setSize w h p2 \<sigma>2'))) =
       Some (Math_max (Fin 1) (Math_floor (js_mul w s2)),
             Math_max (Fin 1) (Math_floor (js_mul h s2)))"
    using setSize_on_target [OF assms(4), of w h] s2
    by (simp_all add: target_size_def)
  have first: "fst (setSize w h p1 \<sigma>1) = None"
    and first_pass: "fst (snd (setSize w h p1 \<sigma>1)) = p1\<lparr>resolution := \<lparr>vec_x = w, vec_y = h\<rparr>\<rparr>"
    and first_target:
      "\<exists>t. target_of (fst (snd (setSize w h p1 \<sigma>1))) (snd (snd (setSize w h p1 \<sigma>1))) = Some t"
    using setSize_on_target [OF assms(1), of w h] by simp_all
  from first_target obtain t where
    t: "target_of (fst (snd (setSize w h p1 \<sigma>1))) (snd (snd (setSize w h p1 \<sigma>1))) = Some t" ..
  have second:
    "fst (setResolutionScale s2 (fst (snd (setSize w h p1 \<sigma>1))) (snd (snd (setSize w h p1 \<sigma>1))))
       = None"
    "target_size
       (fst (snd (setResolutionScale s2 (fst (snd (setSize w h p1 \<sigma>1)))
                    (snd (snd (setSize w h p1 \<sigma>1))))))
       (snd (snd (setResolutionScale s2 (fst (snd (setSize w h p1 \<sigma>1)))
                    (snd (snd (setSize w h p1 \<sigma>1)))))) =
       Some (Math_max (Fin 1) (Math_floor (js_mul w s2)),
             Math_max (Fin 1) (Math_floor (js_mul h s2)))"
    using setResolutionScale_on_target [OF t, of s2]
    by (simp_all add: target_size_def first_pass)
  show ?thesis
    using fresh first second by (simp add: split_beta)
qed

theorem setResolutionScale_rederives_size_witness:
  "case (NormalPass (Obj 10) (Obj 20) Undefined empty_world,
         NormalPass (Obj 10) (Obj 20)
           (Obj \<lparr>opt_resolutionScale = Some (Fin (1 / 4)), opt_renderTarget = Undefined\<rparr>)
           empty_world) of
     (Inr (p1, \<sigma>1), Inr (p2, \<sigma>2)) \<Rightarrow>
       (case setSize (Fin 800) (Fin 600) p1 \<sigma>1 of
          (e, p, \<sigma>) \<Rightarrow>
            (case setResolutionScale (Fin (1 / 4)) p \<sigma> of
               (e', p', \<sigma>') \<Rightarrow>
                 e = None \<and> e' = None \<and> target_size p' \<sigma>' = Some (Fin 200, Fin 150)))
       \<and> (case setSize (Fin 800) (Fin 600) p2 \<sigma>2 of
            (e2, q, \<tau>) \<Rightarrow> e2 = None \<and> target_size q \<tau> = Some (Fin 200, Fin 150))
   | _ \<Rightarrow> False"
proof -
  obtain p1 \<sigma>1 where c1: "NormalPass (Obj 10) (Obj 20) Undefined empty_world = Inr (p1, \<sigma>1)"
    using ctor_succeeds [of NormalPass Undefined] by blast
  obtain p2 \<sigma>2 where c2:
    "NormalPass (Obj 10) (Obj 20)
       (Obj \<lparr>opt_resolutionScale = Some (Fin (1 / 4)), opt_renderTarget = Undefined\<rparr>)
       empty_world = Inr (p2, \<sigma>2)"
    using ctor_succeeds
      [of NormalPass "Obj \<lparr>opt_resolutionScale = Some (Fin (1 / 4)), opt_renderTarget = Undefined\<rparr>"]
    by blast
  have d1: "default_options Undefined =
              Obj \<lparr>opt_resolutionScale = None, opt_renderTarget = Undefined\<rparr>"
    and d2: "default_options
               (Obj \<lparr>opt_resolutionScale = Some (Fin (1 / 4)), opt_renderTarget = Undefined\<rparr>) =
             Obj \<lparr>opt_resolutionScale = Some (Fin (1 / 4)), opt_renderTarget = Undefined\<rparr>"
    by (simp_all add: default_options_def)
  have t1: "target_of p1 \<sigma>1 = Some (targets \<sigma>1 ! length (targets empty_world))"
    using ctor_created_target(3) [where ctor = NormalPass, OF _ c1 d1] by simp
  have t2: "target_of p2 \<sigma>2 = Some (targets \<sigma>2 ! length (targets empty_world))"
    using ctor_created_target(3) [where ctor = NormalPass, OF _ c2 d2] by simp
  have m: "Math_max (Fin 1) (Math_floor (js_mul (Fin 800) (Fin (1 / 4)))) = Fin 200"
    "Math_max (Fin 1) (Math_floor (js_mul (Fin 600) (Fin (1 / 4)))) = Fin 150"
    by (simp_all add: mul_800_quarter mul_600_quarter Math_floor_def Math_max_def)
  show ?thesis
    using setResolutionScale_rederives_size
      [where ctor = NormalPass, OF t1 _ c2 t2, of "Fin 800" "Fin 600"]
    by (simp add: c1 c2 m split_beta)
qed


text \<open>
  C3. When \<open>renderToScreen\<close> is set, \<open>render\<close> hands the delegate the null target, for
  the colour and for the depth, and not the render target of the pass: the call is the
  delegate's draw to the display surface, it throws nothing, and every render target of the
  store, so the one of the pass, is as it was, contents included.
\<close>

theorem render_to_screen_keeps_target:
  assumes "renderToScreen this"
  shows "render rend ib ob d st this \<sigma> =
           (fst (RenderPass_render rend Null Null (renderPass this) \<sigma>), this,
            snd (RenderPass_render rend Null Null (renderPass this) \<sigma>))
         \<and> fst (render rend ib ob d st this \<sigma>) = None
         \<and> targets (snd (snd (render rend ib ob d st this \<sigma>))) = targets \<sigma>
         \<and> target_of this (snd (snd (render rend ib ob d st this \<sigma>))) = target_of this \<sigma>"
  using assms
  by (simp add: render_def RenderPass_render_def draw_into_def target_of_def Let_def
        split: prod.splits js.splits)

theorem render_to_screen_keeps_target_witness:
  "case NormalPass (Obj 10) (Obj 20) Undefined empty_world of
     Inl err \<Rightarrow> False
   | Inr (this, \<sigma>) \<Rightarrow>
       render 0 (Obj 0) (Obj 0) None None (this\<lparr>renderToScreen := True\<rparr>) \<sigma> =
         (None, this\<lparr>renderToScreen := True\<rparr>, \<sigma>\<lparr>screen := Drawn (renderPass this)\<rparr>)"
proof -
  obtain this \<sigma> where c: "NormalPass (Obj 10) (Obj 20) Undefined empty_world = Inr (this, \<sigma>)"
    using ctor_succeeds [of NormalPass Undefined] by blast
  have "renderToScreen (this\<lparr>renderToScreen := True\<rparr>)"
    by simp
  from render_to_screen_keeps_target [OF this, of 0 "Obj 0" "Obj 0" None None \<sigma>]
  show ?thesis
    by (simp add: c RenderPass_render_def draw_into_def)
qed

text \<open>
  C4. \<open>render\<close> does not consult \<open>inputBuffer\<close>, \<open>outputBuffer\<close>, \<open>delta\<close> or
  \<open>stencilTest\<close>: two calls that differ in them only, from the same pass and store, give
  the same outcome, the same pass and the same store, which holds all that the delegate
  drew.
\<close>

theorem render_ignores_buffers:
  "render rend ib ob d st this \<sigma> = render rend ib' ob' d' st' this \<sigma>"
  by (simp add: render_def)

theorem render_ignores_buffers_witness:
  "case DepthPass (Obj 10) (Obj 20)
          (Obj \<lparr>opt_resolutionScale = None, opt_renderTarget = Obj 0\<rparr>) caller_world of
     Inl err \<Rightarrow> False
   | Inr (this, \<sigma>) \<Rightarrow>
       render 0 (Obj 0) Null None None this \<sigma> =
         render 0 Undefined (Obj 5) (Some (Fin 16)) (Some True) this \<sigma>"
proof -
  obtain this \<sigma> where c:
    "DepthPass (Obj 10) (Obj 20)
       (Obj \<lparr>opt_resolutionScale = None, opt_renderTarget = Obj 0\<rparr>) caller_world = Inr (this, \<sigma>)"
    using ctor_succeeds
      [of DepthPass "Obj \<lparr>opt_resolutionScale = None, opt_renderTarget = Obj 0\<rparr>"]
    by blast
  show ?thesis
    using render_ignores_buffers
      [of 0 "Obj 0" Null None None this \<sigma> Undefined "Obj 5" "Some (Fin 16)" "Some True"]
    by (simp add: c)
qed

text \<open>
  C5 as stated fails: a construction with a scale of zero or less would have to end in an
  error, but \<open>new NormalPass(scene, camera, {resolutionScale: -1})\<close> on an empty store
  returns a pass, with the scale -1 stored and a render target of 1 by 1 created.
\<close>

theorem constructor_rejects_scale_counterexample:
  "NormalPass (Obj 10) (Obj 20)
     (Obj \<lparr>opt_resolutionScale = Some (Fin (- 1)), opt_renderTarget = Undefined\<rparr>)
     \<lparr>targets = [], screen = Empty\<rparr>
   = Inr (\<lparr>name = ''NormalPass'', renderToScreen = False, needsSwap = False,
            renderPass = \<lparr>scene = Obj 10, camera = Obj 20,
                           overrideMaterial = MeshNormalMaterial True True,
                           clearColor = Color 0x7777ff, clearAlpha = Fin 1\<rparr>,
            renderTarget = Obj 0,
            resolution = \<lparr>vec_x = Fin 0, vec_y = Fin 0\<rparr>,
            resolutionScale = Fin (- 1)\<rparr>,
          \<lparr>targets = [\<lparr>width = Fin 1, height = Fin 1,
                       texture = \<lparr>tex_name = ''NormalPass.Target'',
                                  minFilter = Some LinearFilter, magFilter = Some LinearFilter,
                                  format = Some RGBFormat, generateMipmaps = Some False\<rparr>,
                       contents = Empty\<rparr>],
            screen = Empty\<rparr>)"
  by (simp add: NormalPass_def default_options_def Pass_def RenderPass_def
        WebGLRenderTarget_def)

text \<open>
  C5 as the code has it, for the scale: given a scene and a camera, the constructors accept
  every scale. With any options object the construction succeeds and stores the scale as
  given, zero and negative ones too, and 0.5 when there is none; without an options object
  it is the construction with an empty one. Nothing is said here of a missing scene or
  camera.
\<close>

theorem constructor_accepts_any_scale:
  assumes "ctor = NormalPass \<or> ctor = DepthPass"
  shows "(\<exists>this \<sigma>'. ctor (Obj sc) (Obj cam) (Obj opt) \<sigma> = Inr (this, \<sigma>') \<and>
            resolutionScale this =
              (case opt_resolutionScale opt of Some s \<Rightarrow> s | None \<Rightarrow> Fin (1 / 2)))
         \<and> ctor (Obj sc) (Obj cam) Undefined \<sigma> =
             ctor (Obj sc) (Obj cam)
               (Obj \<lparr>opt_resolutionScale = None, opt_renderTarget = Undefined\<rparr>) \<sigma>"
  using assms
  by (auto simp: NormalPass_def DepthPass_def default_options_def Let_def
           split: js.splits prod.splits)

theorem constructor_accepts_any_scale_witness:
  "case DepthPass (Obj 10) (Obj 20)
          (Obj \<lparr>opt_resolutionScale = Some (Fin 0), opt_renderTarget = Undefined\<rparr>)
          empty_world of
     Inl err \<Rightarrow> False
   | Inr (this, \<sigma>) \<Rightarrow> resolutionScale this = Fin 0"
  using constructor_accepts_any_scale
    [of DepthPass 10 20
        "\<lparr>opt_resolutionScale = Some (Fin 0), opt_renderTarget = Undefined\<rparr>" empty_world]
  by auto

text \<open>
  C6. A pass that a constructor returned, whatever the options, has \<open>needsSwap\<close> false,
  and it stays false through every sequence of \<open>setSize\<close>, \<open>setResolutionScale\<close> and
  \<open>render\<close> calls, with the flag \<open>renderToScreen\<close> set or cleared in between.
\<close>

theorem needsSwap_always_false:
  assumes "ctor = NormalPass \<or> ctor = DepthPass"
    and "ctor sc cam opts \<sigma> = Inr (this, \<sigma>')"
  shows "needsSwap (fst (run cs (this, \<sigma>'))) = False"
  using ctor_fresh_fields(1) [OF assms] by (simp add: run_needsSwap)

theorem needsSwap_always_false_witness:
  "case DepthPass (Obj 10) (Obj 20)
          (Obj \<lparr>opt_resolutionScale = Some (Fin 2), opt_renderTarget = Obj 0\<rparr>) caller_world of
     Inl err \<Rightarrow> False
   | Inr (this, \<sigma>) \<Rightarrow>
       needsSwap (fst (run [SetSize (Fin 800) (Fin 600), Render 0 Null Null None None,
                            SetResolutionScale (Fin (1 / 4)), SetRenderToScreen True,
                            Render 0 Null Null None None] (this, \<sigma>))) = False"
proof -
  obtain this \<sigma> where c:
    "DepthPass (Obj 10) (Obj 20)
       (Obj \<lparr>opt_resolutionScale = Some (Fin 2), opt_renderTarget = Obj 0\<rparr>) caller_world
     = Inr (this, \<sigma>)"
    using ctor_succeeds
      [of DepthPass "Obj \<lparr>opt_resolutionScale = Some (Fin 2), opt_renderTarget = Obj 0\<rparr>"]
    by blast
  show ?thesis
    using needsSwap_always_false [where ctor = DepthPass, OF _ c,
        of "[SetSize (Fin 800) (Fin 600), Render 0 Null Null None None,
             SetResolutionScale (Fin (1 / 4)), SetRenderToScreen True,
             Render 0 Null Null None None]"]
    by (simp add: c)
qed


text \<open>
  C7. A depth pass constructed with default options (none, or an empty options object) has
  the scale 0.5, and \<open>setSize(800, 600)\<close> makes its own render target 400 by 300. Its
  delegate draws with RGBA depth packing and clears to the colour \<open>0xffffff\<close> with the
  alpha 1: each of the three colour channels is 255, the most a channel of any colour can
  be, so the four channels that hold a packed depth are all at their maximum.
\<close>

theorem DepthPass_default_scenario:
  assumes "opts = Undefined \<or>
           opts = Obj \<lparr>opt_resolutionScale = None, opt_renderTarget = Undefined\<rparr>"
    and "DepthPass sc cam opts \<sigma> = Inr (this, \<sigma>')"
  shows "resolutionScale this = Fin (1 / 2)
         \<and> (case setSize (Fin 800) (Fin 600) this \<sigma>' of
               (e, this', \<sigma>'') \<Rightarrow> e = None \<and> target_size this' \<sigma>'' = Some (Fin 400, Fin 300))
         \<and> overrideMaterial (renderPass this) = MeshDepthMaterial RGBADepthPacking True True
         \<and> clearColor (renderPass this) = Color 0xffffff
         \<and> clearAlpha (renderPass this) = Fin 1
         \<and> color_channels (clearColor (renderPass this)) = (255, 255, 255)
         \<and> (\<forall>c. case color_channels c of (r, g, b) \<Rightarrow> r \<le> 255 \<and> g \<le> 255 \<and> b \<le> 255)"
proof -
  have d: "default_options opts =
             Obj \<lparr>opt_resolutionScale = None, opt_renderTarget = Undefined\<rparr>"
    using assms(1) by (auto simp: default_options_def)
  have scale: "resolutionScale this = Fin (1 / 2)"
    using ctor_scale [where ctor = DepthPass, OF _ assms(2) d] by simp
  have tgt: "target_of this \<sigma>' = Some (targets \<sigma>' ! length (targets \<sigma>))"
    using ctor_created_target(3) [where ctor = DepthPass, OF _ assms(2) d] by simp
  have size: "case setSize (Fin 800) (Fin 600) this \<sigma>' of
                (e, this', \<sigma>'') \<Rightarrow> e = None \<and> target_size this' \<sigma>'' = Some (Fin 400, Fin 300)"
    using setSize_on_target [OF tgt, of "Fin 800" "Fin 600"]
    by (simp add: split_beta target_size_def scale mul_800_half mul_600_half
          Math_floor_def Math_max_def)
  have delegate: "renderPass this =
                    RenderPass sc cam (MeshDepthMaterial RGBADepthPacking True True)
                      (Color 0xffffff) (Fin 1)"
    using assms(2) d by (auto simp: DepthPass_def Let_def split: js.splits)
  have clear: "overrideMaterial (renderPass this) = MeshDepthMaterial RGBADepthPacking True True"
    "clearColor (renderPass this) = Color 0xffffff" "clearAlpha (renderPass this) = Fin 1"
    by (simp_all add: delegate RenderPass_def)
  have white: "color_channels (clearColor (renderPass this)) = (255, 255, 255)"
    by (simp only: clear color_channels_white)
  show ?thesis
    using scale size clear white color_channels_le by blast
qed

theorem DepthPass_default_scenario_witness:
  "case DepthPass (Obj 10) (Obj 20) Undefined empty_world of
     Inl err \<Rightarrow> False
   | Inr (this, \<sigma>) \<Rightarrow>
       resolutionScale this = Fin (1 / 2) \<and>
       (case setSize (Fin 800) (Fin 600) this \<sigma> of
          (e, this', \<sigma>') \<Rightarrow> e = None \<and> target_size this' \<sigma>' = Some (Fin 400, Fin 300)) \<and>
       clearColor (renderPass this) = Color 0xffffff \<and>
       clearAlpha (renderPass this) = Fin 1"
proof -
  obtain this \<sigma> where c: "DepthPass (Obj 10) (Obj 20) Undefined empty_world = Inr (this, \<sigma>)"
    using ctor_succeeds [of DepthPass Undefined] by blast
  show ?thesis
    using DepthPass_default_scenario [OF _ c] by (simp add: c)
qed

text \<open>
  C8. A second \<open>setSize(w, h)\<close> with the arguments of the first changes nothing: the pass
  and the store, so the dimensions of the render target, are those the first call left, and
  neither call throws. The render target of the pass exists.
\<close>

theorem setSize_idempotent:
  assumes "target_of this \<sigma> = Some t"
    and "setSize w h this \<sigma> = (e, this', \<sigma>')"
  shows "e = None \<and> setSize w h this' \<sigma>' = (None, this', \<sigma>')
         \<and> target_size (fst (snd (setSize w h this' \<sigma>'))) (snd (snd (setSize w h this' \<sigma>')))
             = target_size this' \<sigma>'"
  using assms
  by (auto simp: target_of_def setSize_def WebGLRenderTarget_setSize_def Let_def
           split: js.splits if_splits)

theorem setSize_idempotent_witness:
  "case NormalPass (Obj 10) (Obj 20) Undefined empty_world of
     Inl err \<Rightarrow> False
   | Inr (this, \<sigma>) \<Rightarrow>
       (case setSize (Fin 800) (Fin 600) this \<sigma> of
          (e, this', \<sigma>') \<Rightarrow>
            e = None \<and> setSize (Fin 800) (Fin 600) this' \<sigma>' = (None, this', \<sigma>'))"
proof -
  obtain this \<sigma> where c: "NormalPass (Obj 10) (Obj 20) Undefined empty_world = Inr (this, \<sigma>)"
    using ctor_succeeds [of NormalPass Undefined] by blast
  have d: "default_options Undefined =
             Obj \<lparr>opt_resolutionScale = None, opt_renderTarget = Undefined\<rparr>"
    by (simp add: default_options_def)
  have t: "target_of this \<sigma> = Some (targets \<sigma> ! length (targets empty_world))"
    using ctor_created_target(3) [where ctor = NormalPass, OF _ c d] by simp
  obtain e this' \<sigma>' where r: "setSize (Fin 800) (Fin 600) this \<sigma> = (e, this', \<sigma>')"
    by (cases "setSize (Fin 800) (Fin 600) this \<sigma>") blast
  show ?thesis
    using setSize_idempotent [OF t r] by (simp add: c r)
qed

text \<open>
  C9. A pass that a constructor just returned has the resolution (0, 0). If its render
  target exists, be it created by the constructor or supplied by the caller,
  \<open>setResolutionScale(s)\<close> with a finite scale \<open>s\<close> throws nothing and makes that target
  1 by 1: the width and the height that a supplied target had are overwritten, its other
  fields are kept.
\<close>

theorem setResolutionScale_before_setSize:
  assumes "ctor = NormalPass \<or> ctor = DepthPass"
    and "ctor sc cam opts \<sigma> = Inr (this, \<sigma>')"
    and "target_of this \<sigma>' = Some t"
  shows "resolution this = \<lparr>vec_x = Fin 0, vec_y = Fin 0\<rparr>
         \<and> (case setResolutionScale (Fin s) this \<sigma>' of
               (e, this', \<sigma>'') \<Rightarrow>
                 e = None \<and> target_size this' \<sigma>'' = Some (Fin 1, Fin 1) \<and>
                 target_of this' \<sigma>'' = Some (t\<lparr>width := Fin 1, height := Fin 1\<rparr>))"
proof -
  have res: "resolution this = \<lparr>vec_x = Fin 0, vec_y = Fin 0\<rparr>"
    using ctor_fresh_fields(3) [OF assms(1,2)] .
  show ?thesis
    using setResolutionScale_on_target [OF assms(3), of "Fin s"] res
    by (simp add: split_beta target_size_def size_of_zero)
qed

theorem setResolutionScale_before_setSize_witness:
  "case NormalPass (Obj 10) (Obj 20)
          (Obj \<lparr>opt_resolutionScale = None, opt_renderTarget = Obj 0\<rparr>) caller_world of
     Inl err \<Rightarrow> False
   | Inr (this, \<sigma>) \<Rightarrow>
       target_size this \<sigma> = Some (Fin 640, Fin 480) \<and>
       (case setResolutionScale (Fin 2) this \<sigma> of
          (e, this', \<sigma>') \<Rightarrow>
            e = None \<and> target_size this' \<sigma>' = Some (Fin 1, Fin 1) \<and>
            target_of this' \<sigma>' = Some (caller_target\<lparr>width := Fin 1, height := Fin 1\<rparr>))"
proof -
  obtain this \<sigma> where c:
    "NormalPass (Obj 10) (Obj 20)
       (Obj \<lparr>opt_resolutionScale = None, opt_renderTarget = Obj 0\<rparr>) caller_world
     = Inr (this, \<sigma>)"
    using ctor_succeeds
      [of NormalPass "Obj \<lparr>opt_resolutionScale = None, opt_renderTarget = Obj 0\<rparr>"]
    by blast
  have d: "default_options (Obj \<lparr>opt_resolutionScale = None, opt_renderTarget = Obj 0\<rparr>) =
             Obj \<lparr>opt_resolutionScale = None, opt_renderTarget = Obj 0\<rparr>"
    by (simp add: default_options_def)
  have g: "\<sigma> = caller_world" "renderTarget this = Obj 0"
    using ctor_given_target [where ctor = NormalPass, OF _ c d] by simp_all
  have t: "target_of this \<sigma> = Some caller_target"
    by (simp add: g target_of_def caller_world_def)
  show ?thesis
    using setResolutionScale_before_setSize [where ctor = NormalPass, OF _ c t, of 2]
    by (simp add: c t target_size_def caller_target_def)
qed

text \<open>
  C10. A render target that the caller supplies is adopted as it is: the constructor
  returns the store it was given, so no field of the supplied target, nor of any other,
  has changed, and the pass refers to the supplied target. The filters, the mipmap flag,
  the texture name and the pixel format are set on the target that the constructor creates
  when none is supplied (\<open>ctor_created_target\<close>).
\<close>

theorem external_target_untouched:
  assumes "ctor = NormalPass \<or> ctor = DepthPass"
    and "ctor sc cam (Obj opt) \<sigma> = Inr (this, \<sigma>')"
    and "opt_renderTarget opt \<noteq> Undefined"
  shows "\<sigma>' = \<sigma> \<and> renderTarget this = opt_renderTarget opt
         \<and> target_of this \<sigma>' = target_of this \<sigma>"
proof -
  have "default_options (Obj opt) = Obj opt"
    by (simp add: default_options_def)
  from ctor_given_target [OF assms(1,2) this assms(3)] show ?thesis
    by simp
qed

theorem external_target_untouched_witness:
  "case DepthPass (Obj 10) (Obj 20)
          (Obj \<lparr>opt_resolutionScale = Some (Fin 2), opt_renderTarget = Obj 0\<rparr>) caller_world of
     Inl err \<Rightarrow> False
   | Inr (this, \<sigma>) \<Rightarrow>
       \<sigma> = caller_world \<and> renderTarget this = Obj 0 \<and> target_of this \<sigma> = Some caller_target"
proof -
  obtain this \<sigma> where c:
    "DepthPass (Obj 10) (Obj 20)
       (Obj \<lparr>opt_resolutionScale = Some (Fin 2), opt_renderTarget = Obj 0\<rparr>) caller_world
     = Inr (this, \<sigma>)"
    using ctor_succeeds
      [of DepthPass "Obj \<lparr>opt_resolutionScale = Some (Fin 2), opt_renderTarget = Obj 0\<rparr>"]
    by blast
  have f: "\<sigma> = caller_world" "renderTarget this = Obj 0"
    using external_target_untouched [where ctor = DepthPass, OF _ c] by simp_all
  have t: "target_of this \<sigma> = Some caller_target"
    by (simp add: f target_of_def caller_world_def)
  show ?thesis
    using f t by (simp add: c)
qed

text \<open>
  Next to C9: with an infinite scale the product with the stored zero is NaN, and so are
  the dimensions that \<open>setResolutionScale\<close> writes.
\<close>

lemma setResolutionScale_infinite_scale:
  assumes "ctor = NormalPass \<or> ctor = DepthPass"
    and "ctor sc cam opts \<sigma> = Inr (this, \<sigma>')"
    and "target_of this \<sigma>' = Some t"
  shows "case setResolutionScale PosInf this \<sigma>' of
           (e, this', \<sigma>'') \<Rightarrow> target_size this' \<sigma>'' = Some (NaN, NaN)"
proof -
  have res: "resolution this = \<lparr>vec_x = Fin 0, vec_y = Fin 0\<rparr>"
    using ctor_fresh_fields(3) [OF assms(1,2)] .
  show ?thesis
    using setResolutionScale_on_target [OF assms(3), of PosInf] res
    by (simp add: split_beta target_size_def js_mul_zero_infinite Math_floor_def Math_max_def)
qed

end
